theory Spec2Isabelle
  imports Main "HOL-Library.Sublist"
begin

section \<open>Domain deletion in \<^verbatim>\<open>apps/web/lib/api/domains/delete-domain-links.ts\<close>\<close>

text \<open>
  The file exports \<^verbatim>\<open>deleteDomainAndLinks\<close> and \<^verbatim>\<open>markDomainAsDeleted\<close> and keeps
  \<^verbatim>\<open>queueDomainDeletion\<close> private. All three are \<^verbatim>\<open>async\<close> functions that
  talk to outside services: Prisma (tables \<^verbatim>\<open>link\<close>, \<^verbatim>\<open>domain\<close>, \<^verbatim>\<open>project\<close>), a Redis
  pipeline, the R2 object store, the Tinybird sink, QStash and Vercel.

  The embedding passes a \<open>world\<close> explicitly. Every outbound call is appended to the
  \<open>trace\<close> of the world with its arguments, so that "is called" and "is not called" are
  statements about the trace, and the effect of a call that the service accepts is applied
  to the store the service owns. Which calls a service rejects is a parameter, the fault
  plan \<open>env\<close>: a rejected call leaves its store alone and settles as \<open>Rejected\<close>.
  An \<^verbatim>\<open>await\<close> of a rejected promise outside \<^verbatim>\<open>Promise.allSettled\<close> makes the
  \<^verbatim>\<open>async\<close> function reject; that is the \<open>Inl\<close> result.

  The calls inside one \<^verbatim>\<open>Promise.allSettled\<close> are started in the order of the array
  literal and act on different stores; the model runs them in that order. What each store
  holds afterwards depends on its own call only (lemmas \<open>fanOut_sink\<close> to
  \<open>fanOut_project_tbl\<close>), so the order in which the promises settle does not show.
  Other processes writing to the stores during an invocation are outside the model.
\<close>

subsection \<open>Strings\<close>

text \<open>
  A string is a list of characters. \<^verbatim>\<open>startsWith\<close> and \<^verbatim>\<open>replace\<close> only compare
  characters and are defined here. \<^verbatim>\<open>String.prototype.toLowerCase\<close> follows the case
  tables of Unicode, which belong to the runtime and not to the file: it is a parameter of the
  model (the field \<open>toLowerCase\<close> of \<open>config\<close> below), and nothing is assumed about it.
\<close>

text \<open>\<^verbatim>\<open>s.startsWith(p)\<close>.\<close>

definition startsWith :: "string \<Rightarrow> string \<Rightarrow> bool" where
  "startsWith s p = prefix p s"

text \<open>
  \<^verbatim>\<open>s.replace(pat, rep)\<close> with a string pattern: the leftmost occurrence of
  \<open>pat\<close> is replaced, the rest of \<open>s\<close> is kept. (The source only passes the
  replacement \<^verbatim>\<open>""\<close>, which has no \<^verbatim>\<open>$\<close> patterns.)
\<close>

fun replace :: "string \<Rightarrow> string \<Rightarrow> string \<Rightarrow> string" where
  "replace [] pat rep = (if pat = [] then rep else [])"
| "replace (c # cs) pat rep =
     (if prefix pat (c # cs) then rep @ drop (length pat) (c # cs)
      else c # replace cs pat rep)"

subsection \<open>Data\<close>

text \<open>
  What the file takes from outside without calling a service: the constants
  \<^verbatim>\<open>R2_URL\<close> and \<^verbatim>\<open>APP_DOMAIN_WITH_NGROK\<close> of \<^verbatim>\<open>@dub/utils\<close>, and the
  runtime's \<^verbatim>\<open>String.prototype.toLowerCase\<close>. All three are parameters.
\<close>

record config =
  R2_URL :: string
  APP_DOMAIN_WITH_NGROK :: string
  toLowerCase :: "string \<Rightarrow> string"

record tag =
  tag_id :: string

text \<open>A row of \<^verbatim>\<open>prisma.link\<close> with its tags included; only the fields the file reads or writes.\<close>

record link =
  l_id :: string
  l_domain :: string
  l_key :: string
  l_url :: string
  l_image :: "string option"
  l_createdAt :: nat
  l_projectId :: "string option"
  l_tags :: "tag list"

text \<open>A row of \<^verbatim>\<open>prisma.domain\<close>.\<close>

record domain_row =
  d_slug :: string
  d_projectId :: "string option"

text \<open>The object handed to \<^verbatim>\<open>recordLink\<close> for one link (lines 40 to 49).\<close>

record link_event =
  e_link_id :: string
  e_domain :: string
  e_key :: string
  e_url :: string
  e_tag_ids :: "string list"
  e_workspace_id :: string
  e_created_at :: nat
  e_deleted :: bool

text \<open>The argument of \<^verbatim>\<open>qstash.publishJSON\<close> (lines 183 to 190).\<close>

record job =
  j_url :: string
  j_delay :: "nat option"
  j_workspaceId :: string
  j_domain :: string

text \<open>Every outbound call of the file, with its arguments.\<close>

datatype call =
    Link_findMany string nat
  | RecordLink "link_event list"
  | Storage_delete string
  | Pipeline_exec "string list"
  | Link_deleteMany "string list"
  | Project_update string nat
  | Link_count string
  | Domain_delete string
  | PublishJSON job
  | RemoveDomainFromVercel string
  | Domain_update string
  | Link_updateMany string

text \<open>
  Why a promise rejects: the service refused the call (\<open>Unavailable\<close>), or Prisma's
  \<^verbatim>\<open>update\<close>/\<^verbatim>\<open>delete\<close> found no row for the unique key (\<open>RecordNotFound\<close>).
\<close>

datatype error = Unavailable call | RecordNotFound call

text \<open>One entry of the array \<^verbatim>\<open>Promise.allSettled\<close> resolves to.\<close>

datatype settled = Fulfilled | Rejected error

text \<open>A \<^verbatim>\<open>console.error(message, {reason, domain, workspaceId})\<close>.\<close>

datatype log_entry = ConsoleError string error string string

text \<open>What the \<^verbatim>\<open>async\<close> function resolves to: \<^verbatim>\<open>undefined\<close>, or what \<^verbatim>\<open>publishJSON\<close> returned.\<close>

datatype retval = Undefined | Published job

type_synonym env = "call \<Rightarrow> bool"

record world =
  link_tbl :: "link list"
  domain_tbl :: "domain_row list"
  project_tbl :: "string \<rightharpoonup> int"
  cache :: "string set"
  objects :: "string set"
  sink :: "link_event list"
  queue :: "job list"
  provider :: "string set"
  console :: "log_entry list"
  unhandled :: "error list"
  trace :: "call list"

subsection \<open>The services\<close>

definition issue :: "call \<Rightarrow> world \<Rightarrow> world" where
  "issue c w = w\<lparr>trace := trace w @ [c]\<rparr>"

definition settle :: "env \<Rightarrow> call \<Rightarrow> settled" where
  "settle env c = (if env c then Rejected (Unavailable c) else Fulfilled)"

text \<open>
  \<^verbatim>\<open>where: { domain }\<close> on the link table: the rows whose domain equals the argument,
  in table order. (A collation of the database that equates more strings is not modelled.)
\<close>

definition links_where :: "string \<Rightarrow> world \<Rightarrow> link list" where
  "links_where domain w = filter (\<lambda>l. l_domain l = domain) (link_tbl w)"

text \<open>\<^verbatim>\<open>prisma.link.findMany({ where: { domain }, include: { tags: true }, take })\<close>.\<close>

definition link_findMany :: "env \<Rightarrow> string \<Rightarrow> nat \<Rightarrow> world \<Rightarrow> (error + link list) \<times> world" where
  "link_findMany env domain n w =
     (let c = Link_findMany domain n in
      (if env c then Inl (Unavailable c) else Inr (take n (links_where domain w)), issue c w))"

text \<open>\<^verbatim>\<open>prisma.link.count({ where: { domain } })\<close>.\<close>

definition link_count :: "env \<Rightarrow> string \<Rightarrow> world \<Rightarrow> (error + nat) \<times> world" where
  "link_count env domain w =
     (let c = Link_count domain in
      (if env c then Inl (Unavailable c) else Inr (length (links_where domain w)), issue c w))"

text \<open>
  Modelled from the spec: \<^verbatim>\<open>recordLink\<close> is imported from \<^verbatim>\<open>lib/tinybird\<close>, which is
  not part of the source at hand. The analytics sink accepts a batch insert of event
  records: an accepted call appends the events.
\<close>

definition recordLink :: "env \<Rightarrow> link_event list \<Rightarrow> world \<Rightarrow> settled \<times> world" where
  "recordLink env events w =
     (let c = RecordLink events in
      (settle env c, issue c (w\<lparr>sink := (if env c then sink w else sink w @ events)\<rparr>)))"

text \<open>
  Modelled from the spec: \<^verbatim>\<open>storage\<close> is imported from \<^verbatim>\<open>lib/storage\<close>, which is not
  part of the source at hand. The object store deletes by path, and deleting a path that is
  not there is no error.
\<close>

definition storage_delete :: "env \<Rightarrow> string \<Rightarrow> world \<Rightarrow> settled \<times> world" where
  "storage_delete env path w =
     (let c = Storage_delete path in
      (settle env c, issue c (w\<lparr>objects := (if env c then objects w else objects w - {path})\<rparr>)))"

text \<open>\<^verbatim>\<open>pipeline.exec()\<close> of a pipeline holding one \<^verbatim>\<open>del\<close> per key.\<close>

definition pipeline_exec :: "env \<Rightarrow> string list \<Rightarrow> world \<Rightarrow> settled \<times> world" where
  "pipeline_exec env keys w =
     (let c = Pipeline_exec keys in
      (settle env c, issue c (w\<lparr>cache := (if env c then cache w else cache w - set keys)\<rparr>)))"

text \<open>\<^verbatim>\<open>prisma.link.deleteMany({ where: { id: { in: ids } } })\<close>.\<close>

definition link_deleteMany :: "env \<Rightarrow> string list \<Rightarrow> world \<Rightarrow> settled \<times> world" where
  "link_deleteMany env ids w =
     (let c = Link_deleteMany ids in
      (settle env c,
       issue c (w\<lparr>link_tbl :=
         (if env c then link_tbl w else filter (\<lambda>l. l_id l \<notin> set ids) (link_tbl w))\<rparr>)))"

text \<open>
  \<^verbatim>\<open>prisma.project.update({ where: { id }, data: { linksUsage: { decrement: n } } })\<close>;
  it rejects when there is no such project.
\<close>

definition project_update :: "env \<Rightarrow> string \<Rightarrow> nat \<Rightarrow> world \<Rightarrow> settled \<times> world" where
  "project_update env workspaceId n w =
     (let c = Project_update workspaceId n in
      if env c then (Rejected (Unavailable c), issue c w)
      else case project_tbl w workspaceId of
             None \<Rightarrow> (Rejected (RecordNotFound c), issue c w)
           | Some u \<Rightarrow>
               (Fulfilled, issue c (w\<lparr>project_tbl := (project_tbl w)(workspaceId \<mapsto> u - int n)\<rparr>)))"

text \<open>\<^verbatim>\<open>prisma.domain.delete({ where: { slug } })\<close>; it rejects when there is no such row.\<close>

definition domain_delete :: "env \<Rightarrow> string \<Rightarrow> world \<Rightarrow> settled \<times> world" where
  "domain_delete env slug w =
     (let c = Domain_delete slug in
      if env c then (Rejected (Unavailable c), issue c w)
      else if slug \<notin> set (map d_slug (domain_tbl w)) then (Rejected (RecordNotFound c), issue c w)
      else (Fulfilled, issue c (w\<lparr>domain_tbl := filter (\<lambda>d. d_slug d \<noteq> slug) (domain_tbl w)\<rparr>)))"

text \<open>
  \<^verbatim>\<open>prisma.domain.update({ where: { slug }, data: { projectId: null } })\<close>; it rejects when
  there is no such row.
\<close>

definition domain_update :: "env \<Rightarrow> string \<Rightarrow> world \<Rightarrow> settled \<times> world" where
  "domain_update env slug w =
     (let c = Domain_update slug in
      if env c then (Rejected (Unavailable c), issue c w)
      else if slug \<notin> set (map d_slug (domain_tbl w)) then (Rejected (RecordNotFound c), issue c w)
      else (Fulfilled,
            issue c (w\<lparr>domain_tbl :=
              map (\<lambda>d. if d_slug d = slug then d\<lparr>d_projectId := None\<rparr> else d) (domain_tbl w)\<rparr>)))"

text \<open>\<^verbatim>\<open>prisma.link.updateMany({ where: { domain }, data: { projectId: null } })\<close>.\<close>

definition link_updateMany :: "env \<Rightarrow> string \<Rightarrow> world \<Rightarrow> settled \<times> world" where
  "link_updateMany env domain w =
     (let c = Link_updateMany domain in
      (settle env c,
       issue c (w\<lparr>link_tbl :=
         (if env c then link_tbl w
          else map (\<lambda>l. if l_domain l = domain then l\<lparr>l_projectId := None\<rparr> else l) (link_tbl w))\<rparr>)))"

text \<open>
  Modelled from the spec: \<^verbatim>\<open>removeDomainFromVercel\<close> is imported from
  \<^verbatim>\<open>./remove-domain-vercel\<close>, which is not part of the source at hand. It asks the
  hosting provider to release the name and returns a promise.
\<close>

definition removeDomainFromVercel :: "env \<Rightarrow> string \<Rightarrow> world \<Rightarrow> settled \<times> world" where
  "removeDomainFromVercel env domain w =
     (let c = RemoveDomainFromVercel domain in
      (settle env c, issue c (w\<lparr>provider := (if env c then provider w else provider w - {domain})\<rparr>)))"

text \<open>\<^verbatim>\<open>qstash.publishJSON(job)\<close>.\<close>

definition publishJSON :: "env \<Rightarrow> job \<Rightarrow> world \<Rightarrow> (error + retval) \<times> world" where
  "publishJSON env j w =
     (let c = PublishJSON j in
      (if env c then Inl (Unavailable c) else Inr (Published j),
       issue c (w\<lparr>queue := (if env c then queue w else queue w @ [j])\<rparr>)))"

subsection \<open>\<^verbatim>\<open>queueDomainDeletion\<close> (lines 174 to 191)\<close>

text \<open>
  \<^verbatim>\<open>...(delay && { delay })\<close> adds the field only for a truthy \<open>delay\<close>: an absent
  delay and the delay \<open>0\<close> both publish without one. The function has no
  \<^verbatim>\<open>try\<close>: a rejection of \<^verbatim>\<open>publishJSON\<close> is its own rejection.
\<close>

definition queueDomainDeletion ::
  "config \<Rightarrow> env \<Rightarrow> string \<Rightarrow> string \<Rightarrow> nat option \<Rightarrow> world \<Rightarrow> (error + retval) \<times> world" where
  "queueDomainDeletion cfg env workspaceId domain delay w =
     publishJSON env
       \<lparr>j_url = APP_DOMAIN_WITH_NGROK cfg @ ''/api/cron/domains/delete'',
        j_delay = (case delay of None \<Rightarrow> None | Some d \<Rightarrow> if d = 0 then None else Some d),
        j_workspaceId = workspaceId,
        j_domain = domain\<rparr> w"

subsection \<open>\<^verbatim>\<open>deleteDomainAndLinks\<close> (lines 10 to 110)\<close>

text \<open>Lines 40 to 49: the event built for one link.\<close>

definition tombstone :: "string \<Rightarrow> link \<Rightarrow> link_event" where
  "tombstone workspaceId l =
     \<lparr>e_link_id = l_id l,
      e_domain = l_domain l,
      e_key = l_key l,
      e_url = l_url l,
      e_tag_ids = map tag_id (l_tags l),
      e_workspace_id = workspaceId,
      e_created_at = l_createdAt l,
      e_deleted = True\<rparr>"

text \<open>Line 34: the key of one \<^verbatim>\<open>pipeline.del\<close>.\<close>

definition cache_key :: "config \<Rightarrow> link \<Rightarrow> string" where
  "cache_key cfg l = toLowerCase cfg (l_domain l @ '':'' @ l_key l)"

text \<open>
  Line 54: the filter. \<^verbatim>\<open>link.image?.startsWith(...)\<close> is \<^verbatim>\<open>undefined\<close>, hence
  falsy, for a link without image.
\<close>

definition owns_image :: "config \<Rightarrow> link \<Rightarrow> bool" where
  "owns_image cfg l =
     (case l_image l of
        None \<Rightarrow> False
      | Some u \<Rightarrow> startsWith u (R2_URL cfg @ ''/images/'' @ l_id l))"

text \<open>
  Line 55: the argument of \<^verbatim>\<open>storage.delete\<close>. The \<open>None\<close> branch stands for the
  non-null assertion \<^verbatim>\<open>link.image!\<close>; the filter of line 54 lets no such link through.
\<close>

definition image_path :: "config \<Rightarrow> link \<Rightarrow> string" where
  "image_path cfg l =
     (case l_image l of
        None \<Rightarrow> []
      | Some u \<Rightarrow> replace u (R2_URL cfg @ ''/'') [])"

text \<open>Lines 53 to 55: \<^verbatim>\<open>.map\<close> calls \<^verbatim>\<open>storage.delete\<close> once per path, in order.\<close>

fun storage_delete_each :: "env \<Rightarrow> string list \<Rightarrow> world \<Rightarrow> settled list \<times> world" where
  "storage_delete_each env [] w = ([], w)"
| "storage_delete_each env (p # ps) w =
     (let (r, w1) = storage_delete env p w;
          (rs, w2) = storage_delete_each env ps w1
      in (r # rs, w2))"

fun rejections :: "settled list \<Rightarrow> error list" where
  "rejections [] = []"
| "rejections (Fulfilled # rs) = rejections rs"
| "rejections (Rejected e # rs) = e # rejections rs"

text \<open>
  Lines 31 to 78, the fan-out. The second element of the array given to
  \<^verbatim>\<open>Promise.allSettled\<close> is the array that \<^verbatim>\<open>.map\<close> returns, an array of promises and
  not a promise: \<^verbatim>\<open>allSettled\<close> resolves it as a plain value, so its entry is always
  \<open>Fulfilled\<close>. The promises inside are started and never awaited; one that rejects has
  no handler and is an unhandled rejection of the runtime, kept in \<open>unhandled\<close>.
\<close>

definition fanOut :: "config \<Rightarrow> env \<Rightarrow> string \<Rightarrow> link list \<Rightarrow> world \<Rightarrow> settled list \<times> world" where
  "fanOut cfg env workspaceId links w =
     (let keys = map (cache_key cfg) links;
          (r1, w1) = recordLink env (map (tombstone workspaceId) links) w;
          (ps, w2) = storage_delete_each env (map (image_path cfg) (filter (owns_image cfg) links)) w1;
          w2' = w2\<lparr>unhandled := unhandled w2 @ rejections ps\<rparr>;
          (r3, w3) = pipeline_exec env keys w2';
          (r4, w4) = link_deleteMany env (map l_id links) w3;
          (r5, w5) = project_update env workspaceId (length links) w4
      in ([r1, Fulfilled, r3, r4, r5], w5))"

text \<open>Lines 80 to 88: one \<^verbatim>\<open>console.error\<close> per rejected entry.\<close>

definition report :: "string \<Rightarrow> string \<Rightarrow> settled list \<Rightarrow> world \<Rightarrow> world" where
  "report domain workspaceId response w =
     w\<lparr>console := console w @
          map (\<lambda>reason. ConsoleError ''Error deleting domain and links'' reason domain workspaceId)
              (rejections response)\<rparr>"

text \<open>The \<^verbatim>\<open>await\<close> of a promise outside \<^verbatim>\<open>allSettled\<close>.\<close>

definition await :: "settled \<Rightarrow> error + retval" where
  "await r = (case r of Fulfilled \<Rightarrow> Inr Undefined | Rejected e \<Rightarrow> Inl e)"

definition deleteDomainAndLinks ::
  "config \<Rightarrow> env \<Rightarrow> string \<Rightarrow> string \<Rightarrow> world \<Rightarrow> (error + retval) \<times> world" where
  "deleteDomainAndLinks cfg env domain workspaceId w =
     (case link_findMany env domain 1 w of
        (Inl e, w1) \<Rightarrow> (Inl e, w1)
      | (Inr links, w1) \<Rightarrow>
          if length links = 0 then (Inr Undefined, w1)
          else
            (let (response, w2) = fanOut cfg env workspaceId links w1;
                 w3 = report domain workspaceId response w2
             in case link_count env domain w3 of
                  (Inl e, w4) \<Rightarrow> (Inl e, w4)
                | (Inr remainingLinks, w4) \<Rightarrow>
                    if remainingLinks > 0
                    then queueDomainDeletion cfg env workspaceId domain (Some 2) w4
                    else (let (r, w5) = domain_delete env domain w4 in (await r, w5))))"

subsection \<open>\<^verbatim>\<open>markDomainAsDeleted\<close> (lines 114 to 172)\<close>

text \<open>
  The array has four promises and the destructuring binds the first three, so
  \<open>qstashResponse\<close> is the outcome of \<^verbatim>\<open>prisma.link.updateMany\<close> and the outcome of
  \<^verbatim>\<open>queueDomainDeletion\<close> is not looked at.
\<close>

definition complain :: "string \<Rightarrow> string \<Rightarrow> string \<Rightarrow> settled \<Rightarrow> world \<Rightarrow> world" where
  "complain message domain workspaceId r w =
     (case r of
        Fulfilled \<Rightarrow> w
      | Rejected reason \<Rightarrow> w\<lparr>console := console w @ [ConsoleError message reason domain workspaceId]\<rparr>)"

definition markDomainAsDeleted ::
  "config \<Rightarrow> env \<Rightarrow> string \<Rightarrow> string \<Rightarrow> world \<Rightarrow> (error + retval) \<times> world" where
  "markDomainAsDeleted cfg env domain workspaceId w =
     (let (vercelResponse, w1) = removeDomainFromVercel env domain w;
          (prismaResponse, w2) = domain_update env domain w1;
          (qstashResponse, w3) = link_updateMany env domain w2;
          (fourth, w4) = queueDomainDeletion cfg env workspaceId domain None w3;
          w5 = complain ''Error deleting domain from Vercel'' domain workspaceId vercelResponse w4;
          w6 = complain ''Error deleting domain from Prisma'' domain workspaceId prismaResponse w5;
          w7 = complain ''Error publishing to Qstash'' domain workspaceId qstashResponse w6
      in (Inr Undefined, w7))"

subsection \<open>Pieces of \<^verbatim>\<open>deleteDomainAndLinks\<close> named for the proofs\<close>

text \<open>Lines 90 to 109 on their own: the count, then the requeue or the delete of the domain.\<close>

definition converge :: "config \<Rightarrow> env \<Rightarrow> string \<Rightarrow> string \<Rightarrow> world \<Rightarrow> (error + retval) \<times> world" where
  "converge cfg env domain workspaceId w3 =
     (case link_count env domain w3 of
        (Inl e, w4) \<Rightarrow> (Inl e, w4)
      | (Inr remainingLinks, w4) \<Rightarrow>
          if remainingLinks > 0
          then queueDomainDeletion cfg env workspaceId domain (Some 2) w4
          else (let (r, w5) = domain_delete env domain w4 in (await r, w5)))"

text \<open>
  The world in which line 90 runs when \<^verbatim>\<open>findMany\<close> returned the non-empty batch
  \<open>links\<close>: lines 31 to 88 have run after the query.
\<close>

definition settled_world :: "config \<Rightarrow> env \<Rightarrow> string \<Rightarrow> string \<Rightarrow> link list \<Rightarrow> world \<Rightarrow> world" where
  "settled_world cfg env domain workspaceId links w =
     (let (response, w2) = fanOut cfg env workspaceId links (issue (Link_findMany domain 1) w)
      in report domain workspaceId response w2)"

text \<open>What lines 97 to 101 publish: \<^verbatim>\<open>delay: 2\<close>.\<close>

definition requeue_job :: "config \<Rightarrow> string \<Rightarrow> string \<Rightarrow> job" where
  "requeue_job cfg workspaceId domain =
     \<lparr>j_url = APP_DOMAIN_WITH_NGROK cfg @ ''/api/cron/domains/delete'',
      j_delay = Some 2,
      j_workspaceId = workspaceId,
      j_domain = domain\<rparr>"

text \<open>The outbound calls of lines 31 to 78 for a batch, in the order they are made.\<close>

definition fanOut_calls :: "config \<Rightarrow> string \<Rightarrow> link list \<Rightarrow> call list" where
  "fanOut_calls cfg workspaceId links =
     RecordLink (map (tombstone workspaceId) links)
     # map Storage_delete (map (image_path cfg) (filter (owns_image cfg) links))
     @ [Pipeline_exec (map (cache_key cfg) links),
        Link_deleteMany (map l_id links),
        Project_update workspaceId (length links)]"


text \<open>The calls one invocation has made: the trace of \<open>w'\<close> beyond that of \<open>w\<close>.\<close>

definition calls_since :: "world \<Rightarrow> world \<Rightarrow> call list" where
  "calls_since w w' = drop (length (trace w)) (trace w')"

definition storage_deletes :: "call list \<Rightarrow> string list" where
  "storage_deletes t = concat (map (\<lambda>c. case c of Storage_delete p \<Rightarrow> [p] | _ \<Rightarrow> []) t)"

definition pipeline_dels :: "call list \<Rightarrow> string list list" where
  "pipeline_dels t = concat (map (\<lambda>c. case c of Pipeline_exec ks \<Rightarrow> [ks] | _ \<Rightarrow> []) t)"

definition recorded :: "call list \<Rightarrow> link_event list list" where
  "recorded t = concat (map (\<lambda>c. case c of RecordLink es \<Rightarrow> [es] | _ \<Rightarrow> []) t)"

definition usage_updates :: "call list \<Rightarrow> (string \<times> nat) list" where
  "usage_updates t = concat (map (\<lambda>c. case c of Project_update i n \<Rightarrow> [(i, n)] | _ \<Rightarrow> []) t)"

text \<open>Fault plans: one service is down, every other call is accepted.\<close>

definition storage_down :: env where
  "storage_down = (\<lambda>c. case c of Storage_delete p \<Rightarrow> True | _ \<Rightarrow> False)"

definition publish_down :: env where
  "publish_down = (\<lambda>c. case c of PublishJSON j \<Rightarrow> True | _ \<Rightarrow> False)"

definition deleteMany_down :: env where
  "deleteMany_down = (\<lambda>c. case c of Link_deleteMany ids \<Rightarrow> True | _ \<Rightarrow> False)"


subsection \<open>Concrete worlds\<close>

text \<open>
  The concrete worlds below hold ASCII strings only. On such strings the runtime's
  \<^verbatim>\<open>toLowerCase\<close> maps the letters \<^verbatim>\<open>A\<close> to \<^verbatim>\<open>Z\<close> and keeps every other
  character; \<open>ascii_lower\<close> is that mapping. It stands in for the parameter in
  \<open>cfg0\<close> and is no model of the runtime on other strings.
\<close>

definition ascii_lower_char :: "char \<Rightarrow> char" where
  "ascii_lower_char c =
     (let n = (of_char c :: nat) in if 65 \<le> n \<and> n \<le> 90 then char_of (n + 32) else c)"

definition ascii_lower :: "string \<Rightarrow> string" where
  "ascii_lower s = map ascii_lower_char s"

definition cfg0 :: config where
  "cfg0 = \<lparr>R2_URL = ''https://r2.example'', APP_DOMAIN_WITH_NGROK = ''https://app.example'',
            toLowerCase = ascii_lower\<rparr>"

definition no_faults :: env where
  "no_faults = (\<lambda>c. False)"

definition link_x :: link where
  "link_x = \<lparr>l_id = ''lnk1'', l_domain = ''go.example'', l_key = ''X'',
             l_url = ''https://target.example/a'',
             l_image = Some ''https://r2.example/images/lnk1.png'',
             l_createdAt = 1700000000, l_projectId = Some ''ws_1'',
             l_tags = [\<lparr>tag_id = ''t1''\<rparr>]\<rparr>"

definition link_y :: link where
  "link_y = \<lparr>l_id = ''lnk2'', l_domain = ''go.example'', l_key = ''y'',
             l_url = ''https://target.example/b'',
             l_image = Some ''https://cdn.elsewhere.example/pic.png'',
             l_createdAt = 1700000100, l_projectId = Some ''ws_1'',
             l_tags = []\<rparr>"

definition world_of :: "link list \<Rightarrow> world" where
  "world_of ls =
     \<lparr>link_tbl = ls,
      domain_tbl = [\<lparr>d_slug = ''go.example'', d_projectId = Some ''ws_1''\<rparr>],
      project_tbl = [''ws_1'' \<mapsto> 10],
      cache = {''go.example:x'', ''go.example:y''},
      objects = {''images/lnk1.png''},
      sink = [],
      queue = [],
      provider = {''go.example''},
      console = [],
      unhandled = [],
      trace = []\<rparr>"

section \<open>Lemmas about the services and the fan-out\<close>

lemma storage_delete_each_fst:
  "fst (storage_delete_each env ps w) = map (\<lambda>p. settle env (Storage_delete p)) ps"
  by (induction ps arbitrary: w) (simp_all add: storage_delete_def Let_def case_prod_beta)

lemma storage_delete_each_trace:
  "trace (snd (storage_delete_each env ps w)) = trace w @ map Storage_delete ps"
  by (induction ps arbitrary: w) (simp_all add: storage_delete_def issue_def Let_def case_prod_beta)

lemma storage_delete_each_objects:
  "objects (snd (storage_delete_each env ps w)) = objects w - {p \<in> set ps. \<not> env (Storage_delete p)}"
  by (induction ps arbitrary: w) (auto simp add: storage_delete_def issue_def Let_def case_prod_beta)

lemma storage_delete_each_frame:
  "link_tbl (snd (storage_delete_each env ps w)) = link_tbl w"
  "domain_tbl (snd (storage_delete_each env ps w)) = domain_tbl w"
  "project_tbl (snd (storage_delete_each env ps w)) = project_tbl w"
  "cache (snd (storage_delete_each env ps w)) = cache w"
  "sink (snd (storage_delete_each env ps w)) = sink w"
  "queue (snd (storage_delete_each env ps w)) = queue w"
  "provider (snd (storage_delete_each env ps w)) = provider w"
  "console (snd (storage_delete_each env ps w)) = console w"
  "unhandled (snd (storage_delete_each env ps w)) = unhandled w"
  by (induction ps arbitrary: w; simp add: storage_delete_def issue_def Let_def case_prod_beta)+

lemma rejections_settle:
  "rejections (map (\<lambda>p. settle env (Storage_delete p)) ps) =
     map (\<lambda>p. Unavailable (Storage_delete p)) (filter (\<lambda>p. env (Storage_delete p)) ps)"
  by (induction ps) (simp_all add: settle_def)

lemmas storage_delete_each_simps = storage_delete_each_fst storage_delete_each_trace
  storage_delete_each_objects storage_delete_each_frame

lemma project_update_fields:
  "trace (snd (project_update env ws n w)) = trace w @ [Project_update ws n]"
  "link_tbl (snd (project_update env ws n w)) = link_tbl w"
  "domain_tbl (snd (project_update env ws n w)) = domain_tbl w"
  "cache (snd (project_update env ws n w)) = cache w"
  "objects (snd (project_update env ws n w)) = objects w"
  "sink (snd (project_update env ws n w)) = sink w"
  "queue (snd (project_update env ws n w)) = queue w"
  "provider (snd (project_update env ws n w)) = provider w"
  "console (snd (project_update env ws n w)) = console w"
  "unhandled (snd (project_update env ws n w)) = unhandled w"
  by (simp_all add: project_update_def issue_def Let_def split: option.splits)

lemma project_update_project_tbl:
  "project_tbl (snd (project_update env ws n w)) =
     (if env (Project_update ws n) then project_tbl w
      else case project_tbl w ws of
             None \<Rightarrow> project_tbl w
           | Some u \<Rightarrow> (project_tbl w)(ws \<mapsto> u - int n))"
  by (simp add: project_update_def issue_def Let_def split: option.splits)

lemma project_update_fst:
  "fst (project_update env ws n w) =
     (if env (Project_update ws n) then Rejected (Unavailable (Project_update ws n))
      else if project_tbl w ws = None then Rejected (RecordNotFound (Project_update ws n))
      else Fulfilled)"
  by (simp add: project_update_def issue_def Let_def split: option.splits)

lemmas fan_defs = fanOut_def recordLink_def pipeline_exec_def link_deleteMany_def issue_def
  Let_def case_prod_beta

lemma fanOut_trace:
  "trace (snd (fanOut cfg env workspaceId links w)) =
     trace w @ RecordLink (map (tombstone workspaceId) links)
       # map Storage_delete (map (image_path cfg) (filter (owns_image cfg) links))
       @ [Pipeline_exec (map (cache_key cfg) links),
          Link_deleteMany (map l_id links),
          Project_update workspaceId (length links)]"
  by (simp add: fan_defs project_update_fields storage_delete_each_simps del: map_map)

lemma fanOut_link_tbl:
  "link_tbl (snd (fanOut cfg env workspaceId links w)) =
     (if env (Link_deleteMany (map l_id links)) then link_tbl w
      else filter (\<lambda>l. l_id l \<notin> set (map l_id links)) (link_tbl w))"
  by (simp add: fan_defs project_update_fields storage_delete_each_simps del: map_map)

lemma fanOut_project_tbl:
  "project_tbl (snd (fanOut cfg env workspaceId links w)) =
     (if env (Project_update workspaceId (length links)) then project_tbl w
      else case project_tbl w workspaceId of
             None \<Rightarrow> project_tbl w
           | Some u \<Rightarrow> (project_tbl w)(workspaceId \<mapsto> u - int (length links)))"
  by (simp add: fan_defs project_update_project_tbl storage_delete_each_simps del: map_map
        split: option.splits)

lemma fanOut_unhandled:
  "unhandled (snd (fanOut cfg env workspaceId links w)) =
     unhandled w @ map (\<lambda>p. Unavailable (Storage_delete p))
       (filter (\<lambda>p. env (Storage_delete p)) (map (image_path cfg) (filter (owns_image cfg) links)))"
  by (simp add: fan_defs project_update_fields storage_delete_each_simps rejections_settle del: map_map)

lemma fanOut_frame:
  "domain_tbl (snd (fanOut cfg env workspaceId links w)) = domain_tbl w"
  "queue (snd (fanOut cfg env workspaceId links w)) = queue w"
  "provider (snd (fanOut cfg env workspaceId links w)) = provider w"
  "console (snd (fanOut cfg env workspaceId links w)) = console w"
  by (simp_all add: fan_defs project_update_fields storage_delete_each_simps del: map_map)

lemma fanOut_sink:
  "sink (snd (fanOut cfg env workspaceId links w)) =
     (if env (RecordLink (map (tombstone workspaceId) links)) then sink w
      else sink w @ map (tombstone workspaceId) links)"
  by (simp add: fan_defs project_update_fields storage_delete_each_simps del: map_map)

lemma fanOut_cache:
  "cache (snd (fanOut cfg env workspaceId links w)) =
     (if env (Pipeline_exec (map (cache_key cfg) links)) then cache w
      else cache w - set (map (cache_key cfg) links))"
  by (simp add: fan_defs project_update_fields storage_delete_each_simps del: map_map)

lemma fanOut_objects:
  "objects (snd (fanOut cfg env workspaceId links w)) =
     objects w - {p \<in> set (map (image_path cfg) (filter (owns_image cfg) links)). \<not> env (Storage_delete p)}"
  by (simp add: fan_defs project_update_fields storage_delete_each_simps del: map_map)

lemma fanOut_fst:
  "fst (fanOut cfg env workspaceId links w) =
     [settle env (RecordLink (map (tombstone workspaceId) links)),
      Fulfilled,
      settle env (Pipeline_exec (map (cache_key cfg) links)),
      settle env (Link_deleteMany (map l_id links)),
      (if env (Project_update workspaceId (length links))
       then Rejected (Unavailable (Project_update workspaceId (length links)))
       else if project_tbl w workspaceId = None
       then Rejected (RecordNotFound (Project_update workspaceId (length links)))
       else Fulfilled)]"
  by (simp add: fan_defs project_update_fst project_update_fields storage_delete_each_simps del: map_map)

lemma located_iff:
  "fst (link_findMany env domain n w) = Inr links \<longleftrightarrow>
     \<not> env (Link_findMany domain n) \<and> links = take n (links_where domain w)"
  by (auto simp add: link_findMany_def Let_def)

lemma located_domain:
  assumes "fst (link_findMany env domain n w) = Inr links" and "l \<in> set links"
  shows "l_domain l = domain"
proof -
  from assms have "l \<in> set (take n (links_where domain w))"
    by (simp add: located_iff)
  then have "l \<in> set (links_where domain w)"
    by (rule in_set_takeD)
  then show ?thesis
    by (simp add: links_where_def)
qed

lemma deleteDomainAndLinks_empty:
  assumes "fst (link_findMany env domain 1 w) = Inr []"
  shows "deleteDomainAndLinks cfg env domain workspaceId w =
           (Inr Undefined, w\<lparr>trace := trace w @ [Link_findMany domain 1]\<rparr>)"
  using assms by (simp add: deleteDomainAndLinks_def link_findMany_def issue_def Let_def split: if_splits)

lemma deleteDomainAndLinks_batch:
  assumes "fst (link_findMany env domain 1 w) = Inr links" and "links \<noteq> []"
  shows "deleteDomainAndLinks cfg env domain workspaceId w =
           converge cfg env domain workspaceId (settled_world cfg env domain workspaceId links w)"
  using assms
  by (simp add: deleteDomainAndLinks_def converge_def settled_world_def link_findMany_def Let_def
        case_prod_beta split: if_splits)

lemma settled_world_trace:
  "trace (settled_world cfg env domain workspaceId links w) =
     trace w @ Link_findMany domain 1 # fanOut_calls cfg workspaceId links"
  by (simp add: settled_world_def report_def case_prod_beta fanOut_trace fanOut_calls_def issue_def)

lemma settled_world_fields:
  "domain_tbl (settled_world cfg env domain workspaceId links w) = domain_tbl w"
  "queue (settled_world cfg env domain workspaceId links w) = queue w"
  "provider (settled_world cfg env domain workspaceId links w) = provider w"
  "link_tbl (settled_world cfg env domain workspaceId links w) =
     (if env (Link_deleteMany (map l_id links)) then link_tbl w
      else filter (\<lambda>l. l_id l \<notin> set (map l_id links)) (link_tbl w))"
  "project_tbl (settled_world cfg env domain workspaceId links w) =
     (if env (Project_update workspaceId (length links)) then project_tbl w
      else case project_tbl w workspaceId of
             None \<Rightarrow> project_tbl w
           | Some u \<Rightarrow> (project_tbl w)(workspaceId \<mapsto> u - int (length links)))"
  "sink (settled_world cfg env domain workspaceId links w) =
     (if env (RecordLink (map (tombstone workspaceId) links)) then sink w
      else sink w @ map (tombstone workspaceId) links)"
  "cache (settled_world cfg env domain workspaceId links w) =
     (if env (Pipeline_exec (map (cache_key cfg) links)) then cache w
      else cache w - set (map (cache_key cfg) links))"
  "objects (settled_world cfg env domain workspaceId links w) =
     objects w - {p \<in> set (map (image_path cfg) (filter (owns_image cfg) links)). \<not> env (Storage_delete p)}"
  "unhandled (settled_world cfg env domain workspaceId links w) =
     unhandled w @ map (\<lambda>p. Unavailable (Storage_delete p))
       (filter (\<lambda>p. env (Storage_delete p)) (map (image_path cfg) (filter (owns_image cfg) links)))"
  "console (settled_world cfg env domain workspaceId links w) =
     console w @ map (\<lambda>reason. ConsoleError ''Error deleting domain and links'' reason domain workspaceId)
                   (rejections (fst (fanOut cfg env workspaceId links w)))"
  by (simp_all add: settled_world_def report_def case_prod_beta fanOut_frame fanOut_link_tbl
        fanOut_project_tbl fanOut_sink fanOut_cache fanOut_objects fanOut_unhandled fanOut_fst
        issue_def del: map_map split: option.splits)

lemma converge_frame:
  "project_tbl (snd (converge cfg env domain workspaceId w)) = project_tbl w"
  "link_tbl (snd (converge cfg env domain workspaceId w)) = link_tbl w"
  "sink (snd (converge cfg env domain workspaceId w)) = sink w"
  "cache (snd (converge cfg env domain workspaceId w)) = cache w"
  "objects (snd (converge cfg env domain workspaceId w)) = objects w"
  "provider (snd (converge cfg env domain workspaceId w)) = provider w"
  "console (snd (converge cfg env domain workspaceId w)) = console w"
  "unhandled (snd (converge cfg env domain workspaceId w)) = unhandled w"
  by (simp_all add: converge_def link_count_def queueDomainDeletion_def publishJSON_def
        domain_delete_def issue_def Let_def case_prod_beta)

lemma converge_trace:
  "trace (snd (converge cfg env domain workspaceId w)) =
     trace w @ Link_count domain #
       (if env (Link_count domain) then []
        else if 0 < length (links_where domain w) then [PublishJSON (requeue_job cfg workspaceId domain)]
        else [Domain_delete domain])"
  by (simp add: converge_def link_count_def queueDomainDeletion_def publishJSON_def
        domain_delete_def issue_def Let_def case_prod_beta requeue_job_def links_where_def)

lemmas world_defs = cfg0_def no_faults_def link_x_def link_y_def world_of_def

section \<open>An invocation that finds no link\<close>

text \<open>
  C10. When \<^verbatim>\<open>findMany\<close> returns no link, \<^verbatim>\<open>deleteDomainAndLinks\<close> returns at line 28
  and has made no call but the query itself: no event is sent, no cache key and no object is
  deleted, no link row is deleted, the usage counter is unchanged, nothing is enqueued, and
  the domain row is left in place.
\<close>

theorem zero_links_no_side_effect:
  assumes "fst (link_findMany env domain 1 w) = Inr []"
  shows "let w' = snd (deleteDomainAndLinks cfg env domain workspaceId w) in
           fst (deleteDomainAndLinks cfg env domain workspaceId w) = Inr Undefined
           \<and> calls_since w w' = [Link_findMany domain 1]
           \<and> sink w' = sink w
           \<and> cache w' = cache w
           \<and> objects w' = objects w
           \<and> link_tbl w' = link_tbl w
           \<and> project_tbl w' = project_tbl w
           \<and> queue w' = queue w
           \<and> domain_tbl w' = domain_tbl w
           \<and> provider w' = provider w
           \<and> console w' = console w
           \<and> unhandled w' = unhandled w"
  by (simp add: deleteDomainAndLinks_empty [OF assms] calls_since_def)

theorem zero_links_no_side_effect_witness:
  "fst (link_findMany no_faults ''go.example'' 1 (world_of [])) = Inr []
   \<and> fst (deleteDomainAndLinks cfg0 no_faults ''go.example'' ''ws_1'' (world_of [])) = Inr Undefined
   \<and> domain_tbl (snd (deleteDomainAndLinks cfg0 no_faults ''go.example'' ''ws_1'' (world_of [])))
       = [\<lparr>d_slug = ''go.example'', d_projectId = Some ''ws_1''\<rparr>]
   \<and> queue (snd (deleteDomainAndLinks cfg0 no_faults ''go.example'' ''ws_1'' (world_of []))) = []
   \<and> sink (snd (deleteDomainAndLinks cfg0 no_faults ''go.example'' ''ws_1'' (world_of []))) = []"
proof -
  have h: "fst (link_findMany no_faults ''go.example'' 1 (world_of [])) = Inr []"
    by (simp add: located_iff links_where_def world_defs)
  show ?thesis
    using h zero_links_no_side_effect [OF h, of cfg0 "''ws_1''"]
    by (simp add: Let_def world_of_def)
qed

text \<open>
  C2, as stated: a domain without links is hard-deleted in the same call. It is not: with
  the row of \<^verbatim>\<open>go.example\<close> in the domain table and no link, the row is still there
  after the call.
\<close>

theorem zero_links_domain_deleted_counterexample:
  "\<not> (fst (link_findMany no_faults ''go.example'' 1 (world_of [])) = Inr [] \<longrightarrow>
        ''go.example'' \<notin> set (map d_slug (domain_tbl
            (snd (deleteDomainAndLinks cfg0 no_faults ''go.example'' ''ws_1'' (world_of []))))))"
proof -
  have h: "fst (link_findMany no_faults ''go.example'' 1 (world_of [])) = Inr []"
    by (simp add: located_iff links_where_def world_defs)
  show ?thesis
    unfolding deleteDomainAndLinks_empty [OF h]
    using h by (simp add: world_of_def)
qed

text \<open>
  C2, amended. When \<^verbatim>\<open>findMany\<close> returns no link, the fan-out is skipped (the query is
  the only call made), the function returns normally, and the domain row is not deleted
  in that call: the domain table is what it was.
\<close>

theorem zero_links_skips_fanout_keeps_domain:
  assumes "fst (link_findMany env domain 1 w) = Inr []"
  shows "fst (deleteDomainAndLinks cfg env domain workspaceId w) = Inr Undefined
         \<and> trace (snd (deleteDomainAndLinks cfg env domain workspaceId w)) = trace w @ [Link_findMany domain 1]
         \<and> domain_tbl (snd (deleteDomainAndLinks cfg env domain workspaceId w)) = domain_tbl w"
  by (simp add: deleteDomainAndLinks_empty [OF assms])

theorem zero_links_skips_fanout_keeps_domain_witness:
  "fst (link_findMany no_faults ''go.example'' 1 (world_of [])) = Inr []
   \<and> trace (snd (deleteDomainAndLinks cfg0 no_faults ''go.example'' ''ws_1'' (world_of [])))
       = [Link_findMany ''go.example'' 1]
   \<and> map d_slug (domain_tbl (snd (deleteDomainAndLinks cfg0 no_faults ''go.example'' ''ws_1'' (world_of []))))
       = [''go.example'']"
proof -
  have h: "fst (link_findMany no_faults ''go.example'' 1 (world_of [])) = Inr []"
    by (simp add: located_iff links_where_def world_defs)
  show ?thesis
    using h zero_links_skips_fanout_keeps_domain [OF h, of cfg0 "''ws_1''"]
    by (simp add: world_of_def)
qed

section \<open>Lemmas about one invocation\<close>

lemma located_x: "fst (link_findMany env ''go.example'' 1 (world_of (link_x # ls))) = Inr [link_x]"
  if "\<not> env (Link_findMany ''go.example'' 1)"
  using that by (simp add: located_iff links_where_def world_defs)

lemma located_y: "fst (link_findMany env ''go.example'' 1 (world_of (link_y # ls))) = Inr [link_y]"
  if "\<not> env (Link_findMany ''go.example'' 1)"
  using that by (simp add: located_iff links_where_def world_defs)

lemma no_faults_up: "\<not> no_faults c"
  by (simp add: no_faults_def)

lemma batch_calls:
  assumes "fst (link_findMany env domain 1 w) = Inr links" and "links \<noteq> []"
  shows "calls_since w (snd (deleteDomainAndLinks cfg env domain workspaceId w)) =
           Link_findMany domain 1 # fanOut_calls cfg workspaceId links
           @ Link_count domain #
             (if env (Link_count domain) then []
              else if 0 < length (links_where domain (settled_world cfg env domain workspaceId links w))
              then [PublishJSON (requeue_job cfg workspaceId domain)]
              else [Domain_delete domain])"
  by (simp add: deleteDomainAndLinks_batch [OF assms] calls_since_def converge_trace
        settled_world_trace del: length_greater_0_conv)

lemma batch_fields:
  assumes "fst (link_findMany env domain 1 w) = Inr links" and "links \<noteq> []"
  shows "project_tbl (snd (deleteDomainAndLinks cfg env domain workspaceId w))
           = project_tbl (settled_world cfg env domain workspaceId links w)"
    and "sink (snd (deleteDomainAndLinks cfg env domain workspaceId w))
           = sink (settled_world cfg env domain workspaceId links w)"
    and "cache (snd (deleteDomainAndLinks cfg env domain workspaceId w))
           = cache (settled_world cfg env domain workspaceId links w)"
    and "objects (snd (deleteDomainAndLinks cfg env domain workspaceId w))
           = objects (settled_world cfg env domain workspaceId links w)"
    and "unhandled (snd (deleteDomainAndLinks cfg env domain workspaceId w))
           = unhandled (settled_world cfg env domain workspaceId links w)"
    and "console (snd (deleteDomainAndLinks cfg env domain workspaceId w))
           = console (settled_world cfg env domain workspaceId links w)"
    and "link_tbl (snd (deleteDomainAndLinks cfg env domain workspaceId w))
           = link_tbl (settled_world cfg env domain workspaceId links w)"
  by (simp_all add: deleteDomainAndLinks_batch [OF assms] converge_frame)

lemma extract_fanOut_calls:
  "storage_deletes (fanOut_calls cfg workspaceId links) = map (image_path cfg) (filter (owns_image cfg) links)"
  "pipeline_dels (fanOut_calls cfg workspaceId links) = [map (cache_key cfg) links]"
  "recorded (fanOut_calls cfg workspaceId links) = [map (tombstone workspaceId) links]"
  "usage_updates (fanOut_calls cfg workspaceId links) = [(workspaceId, length links)]"
proof -
  have "storage_deletes (map Storage_delete ps) = ps" for ps
    by (induction ps) (simp_all add: storage_deletes_def)
  then show "storage_deletes (fanOut_calls cfg workspaceId links) = map (image_path cfg) (filter (owns_image cfg) links)"
    by (simp add: fanOut_calls_def storage_deletes_def del: map_map)
  have "pipeline_dels (map Storage_delete ps) = []" for ps
    by (induction ps) (simp_all add: pipeline_dels_def)
  then show "pipeline_dels (fanOut_calls cfg workspaceId links) = [map (cache_key cfg) links]"
    by (simp add: fanOut_calls_def pipeline_dels_def del: map_map)
  have "recorded (map Storage_delete ps) = []" for ps
    by (induction ps) (simp_all add: recorded_def)
  then show "recorded (fanOut_calls cfg workspaceId links) = [map (tombstone workspaceId) links]"
    by (simp add: fanOut_calls_def recorded_def del: map_map)
  have "usage_updates (map Storage_delete ps) = []" for ps
    by (induction ps) (simp_all add: usage_updates_def)
  then show "usage_updates (fanOut_calls cfg workspaceId links) = [(workspaceId, length links)]"
    by (simp add: fanOut_calls_def usage_updates_def del: map_map)
qed

lemma extract_batch_calls:
  assumes "fst (link_findMany env domain 1 w) = Inr links" and "links \<noteq> []"
  shows "storage_deletes (calls_since w (snd (deleteDomainAndLinks cfg env domain workspaceId w)))
           = map (image_path cfg) (filter (owns_image cfg) links)"
    and "pipeline_dels (calls_since w (snd (deleteDomainAndLinks cfg env domain workspaceId w)))
           = [map (cache_key cfg) links]"
    and "recorded (calls_since w (snd (deleteDomainAndLinks cfg env domain workspaceId w)))
           = [map (tombstone workspaceId) links]"
    and "usage_updates (calls_since w (snd (deleteDomainAndLinks cfg env domain workspaceId w)))
           = [(workspaceId, length links)]"
proof -
  let ?t = "calls_since w (snd (deleteDomainAndLinks cfg env domain workspaceId w))"
  obtain tl where t: "?t = Link_findMany domain 1 # fanOut_calls cfg workspaceId links @ Link_count domain # tl"
    and tl: "tl = [] \<or> tl = [PublishJSON (requeue_job cfg workspaceId domain)] \<or> tl = [Domain_delete domain]"
    using batch_calls [OF assms, of cfg workspaceId] by (auto split: if_splits)
  have sd: "storage_deletes (a @ b) = storage_deletes a @ storage_deletes b" for a b
    by (simp add: storage_deletes_def)
  have pd: "pipeline_dels (a @ b) = pipeline_dels a @ pipeline_dels b" for a b
    by (simp add: pipeline_dels_def)
  have rc: "recorded (a @ b) = recorded a @ recorded b" for a b
    by (simp add: recorded_def)
  have uu: "usage_updates (a @ b) = usage_updates a @ usage_updates b" for a b
    by (simp add: usage_updates_def)
  have split: "?t = [Link_findMany domain 1] @ fanOut_calls cfg workspaceId links @ (Link_count domain # tl)"
    by (simp add: t)
  have tail: "storage_deletes (Link_count domain # tl) = []" "pipeline_dels (Link_count domain # tl) = []"
             "recorded (Link_count domain # tl) = []" "usage_updates (Link_count domain # tl) = []"
    using tl by (auto simp add: storage_deletes_def pipeline_dels_def recorded_def usage_updates_def)
  have head: "storage_deletes [Link_findMany domain 1] = []" "pipeline_dels [Link_findMany domain 1] = []"
             "recorded [Link_findMany domain 1] = []" "usage_updates [Link_findMany domain 1] = []"
    by (simp_all add: storage_deletes_def pipeline_dels_def recorded_def usage_updates_def)
  show "storage_deletes ?t = map (image_path cfg) (filter (owns_image cfg) links)"
    unfolding split sd by (simp only: head tail extract_fanOut_calls append_Nil append_Nil2)
  show "pipeline_dels ?t = [map (cache_key cfg) links]"
    unfolding split pd by (simp only: head tail extract_fanOut_calls append_Nil append_Nil2)
  show "recorded ?t = [map (tombstone workspaceId) links]"
    unfolding split rc by (simp only: head tail extract_fanOut_calls append_Nil append_Nil2)
  show "usage_updates ?t = [(workspaceId, length links)]"
    unfolding split uu by (simp only: head tail extract_fanOut_calls append_Nil append_Nil2)
qed

lemma replace_prefix:
  assumes "prefix pat s" and "pat \<noteq> []"
  shows "replace s pat [] = drop (length pat) s"
  using assms by (cases s) simp_all

lemma image_path_strips:
  assumes "owns_image cfg l" and "l_image l = Some u"
  shows "image_path cfg l = drop (length (R2_URL cfg @ ''/'')) u"
    and "R2_URL cfg @ ''/'' @ image_path cfg l = u"
proof -
  from assms have "prefix (R2_URL cfg @ ''/images/'' @ l_id l) u"
    by (simp add: owns_image_def startsWith_def)
  then have "prefix ((R2_URL cfg @ ''/'') @ (''images/'' @ l_id l)) u"
    by simp
  then have p: "prefix (R2_URL cfg @ ''/'') u"
    by (rule append_prefixD)
  then show path: "image_path cfg l = drop (length (R2_URL cfg @ ''/'')) u"
    using assms(2) by (simp add: image_path_def replace_prefix)
  from p obtain rest where "u = (R2_URL cfg @ ''/'') @ rest"
    by (auto simp add: prefix_def)
  then show "R2_URL cfg @ ''/'' @ image_path cfg l = u"
    by (simp add: path)
qed

lemma paths_x_y:
  "owns_image cfg0 link_x"
  "image_path cfg0 link_x = ''images/lnk1.png''"
  "\<not> owns_image cfg0 link_y"
  by (simp_all add: owns_image_def image_path_def startsWith_def cfg0_def link_x_def link_y_def)


section \<open>The convergence check (lines 90 to 109)\<close>

text \<open>
  C1. Take an invocation whose \<^verbatim>\<open>findMany\<close> returned a non-empty batch, so that the
  fan-out ran, and whose \<^verbatim>\<open>count\<close> query is answered. The count is taken on the link
  table as the fan-out left it (\<open>wf\<close>), not from the batch. The calls of the invocation
  are the query, the fan-out, the count and then exactly one more: with a count above 0 the
  publish of a job for the same domain and workspace with delay 2, and the domain table is
  untouched (a scheduler that accepts the job has it in its queue); with a count of 0 the
  delete of the domain row, and a store that accepts the delete no longer has the row.
\<close>

theorem convergence_requeue_or_delete:
  assumes located: "fst (link_findMany env domain 1 w) = Inr links"
      and batch: "links \<noteq> []"
      and counted: "\<not> env (Link_count domain)"
  shows "let wf = settled_world cfg env domain workspaceId links w;
             remainingLinks = length (links_where domain wf);
             j = requeue_job cfg workspaceId domain;
             w' = snd (deleteDomainAndLinks cfg env domain workspaceId w)
         in calls_since w w' =
              Link_findMany domain 1 # fanOut_calls cfg workspaceId links
              @ [Link_count domain, if 0 < remainingLinks then PublishJSON j else Domain_delete domain]
          \<and> (0 < remainingLinks \<longrightarrow>
               j_delay j = Some 2 \<and> j_domain j = domain \<and> j_workspaceId j = workspaceId
               \<and> (\<not> env (PublishJSON j) \<longrightarrow> queue w' = queue w @ [j])
               \<and> domain_tbl w' = domain_tbl w)
          \<and> (remainingLinks = 0 \<longrightarrow>
               (\<not> env (Domain_delete domain) \<longrightarrow> domain \<notin> set (map d_slug (domain_tbl w'))))"
proof -
  let ?wf = "settled_world cfg env domain workspaceId links w"
  let ?j = "requeue_job cfg workspaceId domain"
  let ?w' = "snd (deleteDomainAndLinks cfg env domain workspaceId w)"
  let ?n = "length (links_where domain ?wf)"
  have w': "?w' = snd (converge cfg env domain workspaceId ?wf)"
    by (simp add: deleteDomainAndLinks_batch [OF located batch])
  have calls: "calls_since w ?w' =
      Link_findMany domain 1 # fanOut_calls cfg workspaceId links
      @ [Link_count domain, if 0 < ?n then PublishJSON ?j else Domain_delete domain]"
    using counted by (simp add: w' calls_since_def converge_trace settled_world_trace)
  have more: "(\<not> env (PublishJSON ?j) \<longrightarrow> queue ?w' = queue w @ [?j]) \<and> domain_tbl ?w' = domain_tbl w"
    if "0 < ?n"
    using that counted
    by (simp add: w' converge_def link_count_def queueDomainDeletion_def publishJSON_def
          requeue_job_def issue_def Let_def settled_world_fields)
  have none: "\<not> env (Domain_delete domain) \<longrightarrow> domain \<notin> set (map d_slug (domain_tbl ?w'))"
    if "?n = 0"
    using that counted
    by (auto simp add: w' converge_def link_count_def domain_delete_def issue_def Let_def)
  show ?thesis
    using calls more none by (simp add: Let_def requeue_job_def)
qed

text \<open>
  Both branches at concrete inputs: two links on the domain leave one behind and requeue,
  a single link leaves none and the domain row goes.
\<close>

theorem convergence_requeue_or_delete_witness:
  "fst (link_findMany no_faults ''go.example'' 1 (world_of [link_x, link_y])) = Inr [link_x]
   \<and> queue (snd (deleteDomainAndLinks cfg0 no_faults ''go.example'' ''ws_1'' (world_of [link_x, link_y])))
       = [requeue_job cfg0 ''ws_1'' ''go.example'']
   \<and> map d_slug (domain_tbl (snd (deleteDomainAndLinks cfg0 no_faults ''go.example'' ''ws_1''
         (world_of [link_x, link_y])))) = [''go.example'']
   \<and> fst (link_findMany no_faults ''go.example'' 1 (world_of [link_x])) = Inr [link_x]
   \<and> ''go.example'' \<notin> set (map d_slug (domain_tbl
         (snd (deleteDomainAndLinks cfg0 no_faults ''go.example'' ''ws_1'' (world_of [link_x])))))"
proof -
  have nf: "\<not> no_faults c" for c
    by (simp add: no_faults_def)
  have two: "links_where ''go.example''
               (settled_world cfg0 no_faults ''go.example'' ''ws_1'' [link_x] (world_of [link_x, link_y])) = [link_y]"
    by (simp add: links_where_def settled_world_fields nf link_x_def link_y_def world_of_def)
  have one: "links_where ''go.example''
               (settled_world cfg0 no_faults ''go.example'' ''ws_1'' [link_x] (world_of [link_x])) = []"
    by (simp add: links_where_def settled_world_fields nf link_x_def world_of_def)
  have d: "domain_tbl (world_of ls) = [\<lparr>d_slug = ''go.example'', d_projectId = Some ''ws_1''\<rparr>]"
          "queue (world_of ls) = []" for ls
    by (simp_all add: world_of_def)
  have h2: "fst (link_findMany no_faults ''go.example'' 1 (world_of [link_x, link_y])) = Inr [link_x]"
    by (rule located_x [OF nf])
  have h1: "fst (link_findMany no_faults ''go.example'' 1 (world_of [link_x])) = Inr [link_x]"
    by (rule located_x [OF nf])
  show ?thesis
    using h1 h2 two one
          convergence_requeue_or_delete [OF h2 _ nf, where cfg = cfg0 and workspaceId = "''ws_1''"]
          convergence_requeue_or_delete [OF h1 _ nf, where cfg = cfg0 and workspaceId = "''ws_1''"]
    by (simp add: Let_def d no_faults_def)
qed

section \<open>A scheduler that rejects the requeue\<close>

text \<open>
  C4, as stated: \<^verbatim>\<open>deleteDomainAndLinks\<close> does not raise when the enqueue of the
  incomplete-convergence path fails. It does: line 97 is \<^verbatim>\<open>return await queueDomainDeletion(...)\<close>
  outside any \<^verbatim>\<open>try\<close>, so with two links on the domain and QStash down the function
  rejects with the scheduler's error.
\<close>

theorem requeue_failure_nonfatal_counterexample:
  "publish_down (PublishJSON (requeue_job cfg0 ''ws_1'' ''go.example''))
   \<and> fst (deleteDomainAndLinks cfg0 publish_down ''go.example'' ''ws_1'' (world_of [link_x, link_y]))
       = Inl (Unavailable (PublishJSON (requeue_job cfg0 ''ws_1'' ''go.example'')))"
proof -
  have up: "\<not> publish_down (Link_findMany d n)" "\<not> publish_down (Link_count d)"
           "\<not> publish_down (Link_deleteMany ids)" for d n ids
    by (simp_all add: publish_down_def)
  have down: "publish_down (PublishJSON j)" for j
    by (simp add: publish_down_def)
  have h: "fst (link_findMany publish_down ''go.example'' 1 (world_of [link_x, link_y])) = Inr [link_x]"
    by (rule located_x [where env = publish_down, OF up(1)])
  have left: "links_where ''go.example''
               (settled_world cfg0 publish_down ''go.example'' ''ws_1'' [link_x] (world_of [link_x, link_y]))
             = [link_y]"
    by (simp add: links_where_def settled_world_fields up link_x_def link_y_def world_of_def)
  have "fst (deleteDomainAndLinks cfg0 publish_down ''go.example'' ''ws_1'' (world_of [link_x, link_y]))
        = Inl (Unavailable (PublishJSON (requeue_job cfg0 ''ws_1'' ''go.example'')))"
    unfolding deleteDomainAndLinks_batch [OF h, of cfg0 "''ws_1''", simplified]
    by (simp add: converge_def link_count_def up down left queueDomainDeletion_def publishJSON_def
          requeue_job_def Let_def)
  then show ?thesis
    using down by simp
qed

text \<open>
  C4, amended. On the incomplete-convergence path an enqueue failure is fatal to the
  invocation: \<^verbatim>\<open>deleteDomainAndLinks\<close> rejects with the error of \<^verbatim>\<open>publishJSON\<close>.
  Nothing is enqueued, the domain row is not deleted and the links the fan-out left are
  still there, so the resource stays in its intermediate state.
\<close>

theorem requeue_failure_propagates:
  assumes located: "fst (link_findMany env domain 1 w) = Inr links"
      and batch: "links \<noteq> []"
      and counted: "\<not> env (Link_count domain)"
      and more: "0 < length (links_where domain (settled_world cfg env domain workspaceId links w))"
      and down: "env (PublishJSON (requeue_job cfg workspaceId domain))"
  shows "fst (deleteDomainAndLinks cfg env domain workspaceId w)
           = Inl (Unavailable (PublishJSON (requeue_job cfg workspaceId domain)))
         \<and> queue (snd (deleteDomainAndLinks cfg env domain workspaceId w)) = queue w
         \<and> domain_tbl (snd (deleteDomainAndLinks cfg env domain workspaceId w)) = domain_tbl w
         \<and> link_tbl (snd (deleteDomainAndLinks cfg env domain workspaceId w))
             = link_tbl (settled_world cfg env domain workspaceId links w)"
  using counted more down
  by (simp add: deleteDomainAndLinks_batch [OF located batch] converge_def link_count_def
        queueDomainDeletion_def publishJSON_def requeue_job_def issue_def Let_def
        settled_world_fields del: length_greater_0_conv)

text \<open>The same input as the counterexample: QStash down, one link left after the fan-out.\<close>

theorem requeue_failure_propagates_witness:
  "fst (link_findMany publish_down ''go.example'' 1 (world_of [link_x, link_y])) = Inr [link_x]
   \<and> \<not> publish_down (Link_count ''go.example'')
   \<and> publish_down (PublishJSON (requeue_job cfg0 ''ws_1'' ''go.example''))
   \<and> fst (deleteDomainAndLinks cfg0 publish_down ''go.example'' ''ws_1'' (world_of [link_x, link_y]))
       = Inl (Unavailable (PublishJSON (requeue_job cfg0 ''ws_1'' ''go.example'')))
   \<and> queue (snd (deleteDomainAndLinks cfg0 publish_down ''go.example'' ''ws_1'' (world_of [link_x, link_y]))) = []
   \<and> map d_slug (domain_tbl (snd (deleteDomainAndLinks cfg0 publish_down ''go.example'' ''ws_1''
        (world_of [link_x, link_y])))) = [''go.example'']"
proof -
  have up: "\<not> publish_down (Link_findMany d n)" "\<not> publish_down (Link_count d)"
           "\<not> publish_down (Link_deleteMany ids)" for d n ids
    by (simp_all add: publish_down_def)
  have down: "publish_down (PublishJSON j)" for j
    by (simp add: publish_down_def)
  have h: "fst (link_findMany publish_down ''go.example'' 1 (world_of [link_x, link_y])) = Inr [link_x]"
    by (rule located_x [where env = publish_down, OF up(1)])
  have ne: "[link_x] \<noteq> []"
    by simp
  have left: "links_where ''go.example''
               (settled_world cfg0 publish_down ''go.example'' ''ws_1'' [link_x] (world_of [link_x, link_y]))
             = [link_y]"
    by (simp add: links_where_def settled_world_fields up link_x_def link_y_def world_of_def)
  have more: "0 < length (links_where ''go.example''
               (settled_world cfg0 publish_down ''go.example'' ''ws_1'' [link_x] (world_of [link_x, link_y])))"
    by (simp only: left) simp
  have d: "domain_tbl (world_of ls) = [\<lparr>d_slug = ''go.example'', d_projectId = Some ''ws_1''\<rparr>]"
          "queue (world_of ls) = []" for ls
    by (simp_all add: world_of_def)
  from requeue_failure_propagates [OF h ne up(2) more down]
  show ?thesis
    using h up(2) [of "''go.example''"] down [of "requeue_job cfg0 ''ws_1'' ''go.example''"]
    by (simp add: d)
qed

section \<open>The usage counter\<close>

text \<open>
  C5. Once a non-empty batch is chosen, the invocation issues exactly one
  \<^verbatim>\<open>project.update\<close>, for the given workspace and with the batch length as decrement,
  whatever the fault plan says about the other calls. When that one call is accepted and the
  project exists, \<open>linksUsage\<close> goes down by exactly the batch length; the hypothesis
  names no other call of the fan-out.
\<close>

theorem usage_decrement_unconditional:
  assumes located: "fst (link_findMany env domain 1 w) = Inr links"
      and batch: "links \<noteq> []"
  shows "let w' = snd (deleteDomainAndLinks cfg env domain workspaceId w) in
           usage_updates (calls_since w w') = [(workspaceId, length links)]
           \<and> (\<not> env (Project_update workspaceId (length links)) \<longrightarrow>
                (\<forall>u. project_tbl w workspaceId = Some u \<longrightarrow>
                     project_tbl w' = (project_tbl w)(workspaceId \<mapsto> u - int (length links))))"
  by (simp add: Let_def extract_batch_calls [OF located batch] batch_fields [OF located batch]
        settled_world_fields)

text \<open>
  The relational bulk delete is rejected, so both links stay in the table, and the counter
  still goes from 10 to 9.
\<close>

theorem usage_decrement_unconditional_witness:
  "fst (link_findMany deleteMany_down ''go.example'' 1 (world_of [link_x, link_y])) = Inr [link_x]
   \<and> deleteMany_down (Link_deleteMany (map l_id [link_x]))
   \<and> \<not> deleteMany_down (Project_update ''ws_1'' 1)
   \<and> link_tbl (snd (deleteDomainAndLinks cfg0 deleteMany_down ''go.example'' ''ws_1''
         (world_of [link_x, link_y]))) = [link_x, link_y]
   \<and> project_tbl (world_of [link_x, link_y]) ''ws_1'' = Some 10
   \<and> project_tbl (snd (deleteDomainAndLinks cfg0 deleteMany_down ''go.example'' ''ws_1''
         (world_of [link_x, link_y]))) ''ws_1'' = Some 9"
proof -
  have up: "\<not> deleteMany_down (Link_findMany d n)" "\<not> deleteMany_down (Project_update i k)" for d n i k
    by (simp_all add: deleteMany_down_def)
  have down: "deleteMany_down (Link_deleteMany ids)" for ids
    by (simp add: deleteMany_down_def)
  have h: "fst (link_findMany deleteMany_down ''go.example'' 1 (world_of [link_x, link_y])) = Inr [link_x]"
    by (rule located_x [where env = deleteMany_down, OF up(1)])
  have ne: "[link_x] \<noteq> []"
    by simp
  have u: "project_tbl (world_of ls) = [''ws_1'' \<mapsto> 10]" "link_tbl (world_of ls) = ls" for ls
    by (simp_all add: world_of_def)
  have kept: "link_tbl (snd (deleteDomainAndLinks cfg0 deleteMany_down ''go.example'' ''ws_1''
         (world_of [link_x, link_y]))) = [link_x, link_y]"
    unfolding batch_fields [OF h ne]
    by (simp add: settled_world_fields down u)
  from usage_decrement_unconditional [OF h ne, of cfg0 "''ws_1''"]
  show ?thesis
    using h kept up(2) [of "''ws_1''" 1] down [of "map l_id [link_x]"] by (simp add: Let_def u)
qed

section \<open>Object-store assets (lines 52 to 55)\<close>

text \<open>
  C7. The \<^verbatim>\<open>storage.delete\<close> calls of an invocation are those for the links of the
  batch that pass the filter, in order, one each. A link passes exactly when it has an image
  and the image URL starts with \<^verbatim>\<open>R2_URL/images/\<close> followed by the link's id; a link
  without image or with an image elsewhere gets no call. The path handed over is the URL
  without its leading \<^verbatim>\<open>R2_URL/\<close>. The objects that disappear are the paths whose delete
  the store accepts.
\<close>

theorem asset_deleted_iff_owned:
  assumes located: "fst (link_findMany env domain 1 w) = Inr links"
      and batch: "links \<noteq> []"
  shows "let w' = snd (deleteDomainAndLinks cfg env domain workspaceId w);
             paths = storage_deletes (calls_since w w')
         in paths = map (image_path cfg) (filter (owns_image cfg) links)
          \<and> (\<forall>l \<in> set links. owns_image cfg l \<longleftrightarrow>
                (\<exists>u. l_image l = Some u \<and> prefix (R2_URL cfg @ ''/images/'' @ l_id l) u))
          \<and> (\<forall>l \<in> set links. \<forall>u. owns_image cfg l \<and> l_image l = Some u \<longrightarrow>
                image_path cfg l = drop (length (R2_URL cfg @ ''/'')) u
                \<and> R2_URL cfg @ ''/'' @ image_path cfg l = u)
          \<and> objects w' = objects w - {p \<in> set paths. \<not> env (Storage_delete p)}"
proof -
  have owned: "owns_image cfg l \<longleftrightarrow>
      (\<exists>u. l_image l = Some u \<and> prefix (R2_URL cfg @ ''/images/'' @ l_id l) u)" for l
    by (cases "l_image l") (simp_all add: owns_image_def startsWith_def)
  show ?thesis
    unfolding Let_def extract_batch_calls [OF located batch] batch_fields [OF located batch]
      settled_world_fields
    using owned image_path_strips by blast
qed

text \<open>
  \<open>link_x\<close> has its image under \<^verbatim>\<open>R2_URL/images/lnk1\<close> and loses it; \<open>link_y\<close> has an
  image on another host and causes no call.
\<close>

theorem asset_deleted_iff_owned_witness:
  "fst (link_findMany no_faults ''go.example'' 1 (world_of [link_x])) = Inr [link_x]
   \<and> storage_deletes (calls_since (world_of [link_x])
        (snd (deleteDomainAndLinks cfg0 no_faults ''go.example'' ''ws_1'' (world_of [link_x]))))
       = [''images/lnk1.png'']
   \<and> objects (snd (deleteDomainAndLinks cfg0 no_faults ''go.example'' ''ws_1'' (world_of [link_x]))) = {}
   \<and> fst (link_findMany no_faults ''go.example'' 1 (world_of [link_y])) = Inr [link_y]
   \<and> storage_deletes (calls_since (world_of [link_y])
        (snd (deleteDomainAndLinks cfg0 no_faults ''go.example'' ''ws_1'' (world_of [link_y]))))
       = []
   \<and> objects (snd (deleteDomainAndLinks cfg0 no_faults ''go.example'' ''ws_1'' (world_of [link_y])))
       = {''images/lnk1.png''}"
proof -
  have hx: "fst (link_findMany no_faults ''go.example'' 1 (world_of [link_x])) = Inr [link_x]"
    by (rule located_x [where env = no_faults, OF no_faults_up])
  have hy: "fst (link_findMany no_faults ''go.example'' 1 (world_of [link_y])) = Inr [link_y]"
    by (rule located_y [where env = no_faults, OF no_faults_up])
  have nx: "[link_x] \<noteq> []" and ny: "[link_y] \<noteq> []"
    by simp_all
  have o: "objects (world_of ls) = {''images/lnk1.png''}" for ls
    by (simp add: world_of_def)
  from asset_deleted_iff_owned [OF hx nx, of cfg0 "''ws_1''"]
       asset_deleted_iff_owned [OF hy ny, of cfg0 "''ws_1''"]
  show ?thesis
    using hx hy by (simp add: Let_def paths_x_y o no_faults_up)
qed

section \<open>Tombstone events (lines 38 to 50)\<close>

text \<open>
  C8. An invocation with a non-empty batch calls \<^verbatim>\<open>recordLink\<close> once, with one event
  per link of the batch, in order. The event of a link carries the link's id, the domain,
  the link's key and URL, the ids of its tags, the workspace id given to the function, the
  link's creation time, and \<open>deleted = True\<close>. A sink that accepts the call has the events
  appended.
\<close>

theorem one_tombstone_per_link:
  assumes located: "fst (link_findMany env domain 1 w) = Inr links"
      and batch: "links \<noteq> []"
  shows "let w' = snd (deleteDomainAndLinks cfg env domain workspaceId w);
             events = map (tombstone workspaceId) links
         in recorded (calls_since w w') = [events]
          \<and> length events = length links
          \<and> (\<forall>i < length links.
                e_link_id (events ! i) = l_id (links ! i)
                \<and> e_domain (events ! i) = domain
                \<and> e_key (events ! i) = l_key (links ! i)
                \<and> e_url (events ! i) = l_url (links ! i)
                \<and> e_tag_ids (events ! i) = map tag_id (l_tags (links ! i))
                \<and> e_workspace_id (events ! i) = workspaceId
                \<and> e_created_at (events ! i) = l_createdAt (links ! i)
                \<and> e_deleted (events ! i) = True)
          \<and> (\<not> env (RecordLink events) \<longrightarrow> sink w' = sink w @ events)"
proof -
  have dom: "l_domain (links ! i) = domain" if "i < length links" for i
    using located_domain [OF located] that by simp
  show ?thesis
    unfolding Let_def extract_batch_calls [OF located batch] batch_fields [OF located batch]
      settled_world_fields
    by (simp add: tombstone_def dom)
qed

text \<open>The event of \<open>link_x\<close>, written out.\<close>

theorem one_tombstone_per_link_witness:
  "fst (link_findMany no_faults ''go.example'' 1 (world_of [link_x, link_y])) = Inr [link_x]
   \<and> recorded (calls_since (world_of [link_x, link_y])
        (snd (deleteDomainAndLinks cfg0 no_faults ''go.example'' ''ws_1'' (world_of [link_x, link_y]))))
       = [[tombstone ''ws_1'' link_x]]
   \<and> sink (snd (deleteDomainAndLinks cfg0 no_faults ''go.example'' ''ws_1'' (world_of [link_x, link_y])))
       = [\<lparr>e_link_id = ''lnk1'', e_domain = ''go.example'', e_key = ''X'',
           e_url = ''https://target.example/a'', e_tag_ids = [''t1''], e_workspace_id = ''ws_1'',
           e_created_at = 1700000000, e_deleted = True\<rparr>]"
proof -
  have hx: "fst (link_findMany no_faults ''go.example'' 1 (world_of [link_x, link_y])) = Inr [link_x]"
    by (rule located_x [where env = no_faults, OF no_faults_up])
  have nx: "[link_x] \<noteq> []"
    by simp
  have s: "sink (world_of ls) = []" for ls
    by (simp add: world_of_def)
  have t: "tombstone ''ws_1'' link_x =
      \<lparr>e_link_id = ''lnk1'', e_domain = ''go.example'', e_key = ''X'',
        e_url = ''https://target.example/a'', e_tag_ids = [''t1''], e_workspace_id = ''ws_1'',
        e_created_at = 1700000000, e_deleted = True\<rparr>"
    by (simp add: tombstone_def link_x_def)
  from one_tombstone_per_link [OF hx nx, of cfg0 "''ws_1''"]
  show ?thesis
    using hx by (simp add: Let_def s no_faults_up t [symmetric])
qed

section \<open>Cache keys (lines 31 to 35)\<close>



section \<open>What the fan-out captures\<close>

text \<open>
  \<open>fanOut_fst\<close> gives the array \<^verbatim>\<open>allSettled\<close> resolves to: the entries of
  \<^verbatim>\<open>recordLink\<close>, \<^verbatim>\<open>pipeline.exec\<close>, \<^verbatim>\<open>deleteMany\<close> and \<^verbatim>\<open>project.update\<close> are
  \<open>Rejected\<close> exactly when their call fails. The second entry is \<open>Fulfilled\<close> for
  every input.
\<close>

lemma fanOut_second_entry: "fst (fanOut cfg env workspaceId links w) ! 1 = Fulfilled"
  by (simp add: fanOut_fst)

text \<open>
  C3. The claim wants a rejected \<^verbatim>\<open>storage.delete\<close> among the collected outcomes. With
  \<open>link_x\<close>, whose image is in the store's own namespace, and an object store that
  rejects: the delete is issued and rejected, all five entries of the response are
  \<open>Fulfilled\<close>, nothing is written to the console, the function returns normally, the
  object is still in the store, and the rejection is an unhandled one.
\<close>

theorem storage_rejection_not_captured:
  "storage_down (Storage_delete ''images/lnk1.png'')
   \<and> storage_deletes (fanOut_calls cfg0 ''ws_1'' [link_x]) = [''images/lnk1.png'']
   \<and> fst (fanOut cfg0 storage_down ''ws_1'' [link_x] (world_of [link_x]))
       = [Fulfilled, Fulfilled, Fulfilled, Fulfilled, Fulfilled]
   \<and> unhandled (snd (fanOut cfg0 storage_down ''ws_1'' [link_x] (world_of [link_x])))
       = [Unavailable (Storage_delete ''images/lnk1.png'')]
   \<and> fst (deleteDomainAndLinks cfg0 storage_down ''go.example'' ''ws_1'' (world_of [link_x]))
       = Inr Undefined
   \<and> console (snd (deleteDomainAndLinks cfg0 storage_down ''go.example'' ''ws_1'' (world_of [link_x])))
       = []
   \<and> ''images/lnk1.png'' \<in> objects
         (snd (deleteDomainAndLinks cfg0 storage_down ''go.example'' ''ws_1'' (world_of [link_x])))"
proof -
  have up: "\<not> storage_down (Link_findMany d n)" "\<not> storage_down (RecordLink es)"
           "\<not> storage_down (Pipeline_exec ks)" "\<not> storage_down (Link_deleteMany ids)"
           "\<not> storage_down (Project_update i k)" "\<not> storage_down (Link_count d)"
           "\<not> storage_down (Domain_delete d)" for d n es ks ids i k
    by (simp_all add: storage_down_def)
  have down: "storage_down (Storage_delete p)" for p
    by (simp add: storage_down_def)
  have h: "fst (link_findMany storage_down ''go.example'' 1 (world_of [link_x])) = Inr [link_x]"
    by (rule located_x [where env = storage_down, OF up(1)])
  have ne: "[link_x] \<noteq> []"
    by simp
  have w: "project_tbl (world_of ls) ''ws_1'' = Some 10" "unhandled (world_of ls) = []"
          "console (world_of ls) = []" "objects (world_of ls) = {''images/lnk1.png''}"
          "domain_tbl (world_of ls) = [\<lparr>d_slug = ''go.example'', d_projectId = Some ''ws_1''\<rparr>]" for ls
    by (simp_all add: world_of_def)
  have response: "fst (fanOut cfg0 storage_down ''ws_1'' [link_x] (world_of [link_x]))
       = [Fulfilled, Fulfilled, Fulfilled, Fulfilled, Fulfilled]"
    by (simp add: fanOut_fst settle_def up w)
  have floating: "unhandled (snd (fanOut cfg0 storage_down ''ws_1'' [link_x] (world_of [link_x])))
       = [Unavailable (Storage_delete ''images/lnk1.png'')]"
    by (simp add: fanOut_unhandled paths_x_y down w)
  have gone: "links_where ''go.example''
       (settled_world cfg0 storage_down ''go.example'' ''ws_1'' [link_x] (world_of [link_x])) = []"
    by (simp add: links_where_def settled_world_fields up link_x_def world_of_def)
  have ret: "fst (deleteDomainAndLinks cfg0 storage_down ''go.example'' ''ws_1'' (world_of [link_x]))
       = Inr Undefined"
    unfolding deleteDomainAndLinks_batch [OF h ne]
    by (simp add: converge_def link_count_def domain_delete_def await_def Let_def up gone
          issue_def settled_world_fields w)
  have quiet: "console (snd (deleteDomainAndLinks cfg0 storage_down ''go.example'' ''ws_1'' (world_of [link_x])))
       = []"
    unfolding batch_fields [OF h ne]
    by (simp add: settled_world_fields fanOut_fst settle_def up w)
  have kept: "''images/lnk1.png'' \<in> objects
         (snd (deleteDomainAndLinks cfg0 storage_down ''go.example'' ''ws_1'' (world_of [link_x])))"
    unfolding batch_fields [OF h ne]
    by (simp add: settled_world_fields paths_x_y down w)
  show ?thesis
    using down response floating ret quiet kept
    by (simp add: extract_fanOut_calls paths_x_y)
qed

section \<open>\<^verbatim>\<open>markDomainAsDeleted\<close>\<close>



text \<open>
  What \<^verbatim>\<open>markDomainAsDeleted\<close> writes to the console. The third message, worded for
  QStash, is written when \<^verbatim>\<open>prisma.link.updateMany\<close> rejects; a rejected publish writes
  nothing.
\<close>

lemma markDomainAsDeleted_console:
  "console (snd (markDomainAsDeleted cfg env domain workspaceId w)) =
     console w
     @ map (\<lambda>e. ConsoleError ''Error deleting domain from Vercel'' e domain workspaceId)
         (rejections [fst (removeDomainFromVercel env domain w)])
     @ map (\<lambda>e. ConsoleError ''Error deleting domain from Prisma'' e domain workspaceId)
         (rejections [fst (domain_update env domain w)])
     @ map (\<lambda>e. ConsoleError ''Error publishing to Qstash'' e domain workspaceId)
         (rejections [fst (link_updateMany env domain w)])"
proof -
  have c: "console (complain m d ws r v) = console v @ map (\<lambda>e. ConsoleError m e d ws) (rejections [r])"
    for m d ws r v
    by (cases r) (simp_all add: complain_def)
  have du: "console (snd (domain_update env domain v)) = console v"
           "fst (domain_update env domain v) =
              (if env (Domain_update domain) then Rejected (Unavailable (Domain_update domain))
               else if domain \<notin> set (map d_slug (domain_tbl v))
               then Rejected (RecordNotFound (Domain_update domain))
               else Fulfilled)" for v
    by (simp_all add: domain_update_def issue_def Let_def)
  show ?thesis
    by (simp add: markDomainAsDeleted_def Let_def case_prod_beta c du
          removeDomainFromVercel_def link_updateMany_def queueDomainDeletion_def publishJSON_def
          issue_def)
qed

end
